theory Spec2Isabelle
  imports Main "HOL-Library.Word"
begin

unbundle bit_operations_syntax

section \<open>Strings\<close>

text \<open>
  A Python \<open>str\<close> is modelled as a \<open>string\<close> whose characters are the code points
  below 256 (Latin-1), so \<open>length\<close> counts code points as Python's \<open>len\<close> does.
  \<open>str.lower()\<close> on that range maps \<open>A\<close>..\<open>Z\<close> and the Latin-1 capitals
  (0xC0..0xDE except the multiplication sign 0xD7) to the letter 32 places up and leaves
  everything else alone. \<open>str.encode()\<close> is UTF-8: one byte below 0x80, two bytes above.
\<close>

definition py_lower_char :: "char \<Rightarrow> char" where
  "py_lower_char c =
     (let n = (of_char c :: nat)
      in if (65 \<le> n \<and> n \<le> 90) \<or> (192 \<le> n \<and> n \<le> 222 \<and> n \<noteq> 215)
         then char_of (n + 32) else c)"

definition py_lower :: "string \<Rightarrow> string" where
  "py_lower s = map py_lower_char s"

definition is_lower_alnum :: "char \<Rightarrow> bool" where
  "is_lower_alnum c =
     (let n = (of_char c :: nat)
      in (97 \<le> n \<and> n \<le> 122) \<or> (48 \<le> n \<and> n \<le> 57))"

text \<open>\<open>re.sub(r'c+', 'c', s)\<close>: every run of the character \<open>c\<close> becomes one \<open>c\<close>.\<close>

fun collapse_runs :: "char \<Rightarrow> string \<Rightarrow> string" where
  "collapse_runs c [] = []"
| "collapse_runs c [x] = [x]"
| "collapse_runs c (x # y # zs) =
     (if x = c \<and> y = c then collapse_runs c (y # zs) else x # collapse_runs c (y # zs))"

text \<open>\<open>s.strip('c')\<close>: leading and trailing occurrences of \<open>c\<close> are removed.\<close>

definition py_strip :: "char \<Rightarrow> string \<Rightarrow> string" where
  "py_strip c s = rev (dropWhile (\<lambda>x. x = c) (rev (dropWhile (\<lambda>x. x = c) s)))"

text \<open>
  \<open>xs[:n]\<close>: a negative bound counts from the end, and a bound beyond either end is
  clamped.
\<close>

definition py_slice_to :: "'a list \<Rightarrow> int \<Rightarrow> 'a list" where
  "py_slice_to xs n =
     (if n < 0 then take (nat (int (length xs) + n)) xs else take (nat n) xs)"

definition encode :: "string \<Rightarrow> 8 word list" where
  "encode s =
     concat (map (\<lambda>c. let n = (of_char c :: nat)
                       in if n < 128 then [of_nat n]
                          else [of_nat (192 + n div 64), of_nat (128 + n mod 64)]) s)"

section \<open>The MD5 digest (\<open>hashlib.md5\<close>)\<close>

definition md5_shifts :: "nat list" where
  "md5_shifts =
     [7, 12, 17, 22, 7, 12, 17, 22, 7, 12, 17, 22, 7, 12, 17, 22,
      5, 9, 14, 20, 5, 9, 14, 20, 5, 9, 14, 20, 5, 9, 14, 20,
      4, 11, 16, 23, 4, 11, 16, 23, 4, 11, 16, 23, 4, 11, 16, 23,
      6, 10, 15, 21, 6, 10, 15, 21, 6, 10, 15, 21, 6, 10, 15, 21]"

definition md5_consts :: "32 word list" where
  "md5_consts =
     [0xd76aa478, 0xe8c7b756, 0x242070db, 0xc1bdceee,
      0xf57c0faf, 0x4787c62a, 0xa8304613, 0xfd469501,
      0x698098d8, 0x8b44f7af, 0xffff5bb1, 0x895cd7be,
      0x6b901122, 0xfd987193, 0xa679438e, 0x49b40821,
      0xf61e2562, 0xc040b340, 0x265e5a51, 0xe9b6c7aa,
      0xd62f105d, 0x02441453, 0xd8a1e681, 0xe7d3fbc8,
      0x21e1cde6, 0xc33707d6, 0xf4d50d87, 0x455a14ed,
      0xa9e3e905, 0xfcefa3f8, 0x676f02d9, 0x8d2a4c8a,
      0xfffa3942, 0x8771f681, 0x6d9d6122, 0xfde5380c,
      0xa4beea44, 0x4bdecfa9, 0xf6bb4b60, 0xbebfbc70,
      0x289b7ec6, 0xeaa127fa, 0xd4ef3085, 0x04881d05,
      0xd9d4d039, 0xe6db99e5, 0x1fa27cf8, 0xc4ac5665,
      0xf4292244, 0x432aff97, 0xab9423a7, 0xfc93a039,
      0x655b59c3, 0x8f0ccc92, 0xffeff47d, 0x85845dd1,
      0x6fa87e4f, 0xfe2ce6e0, 0xa3014314, 0x4e0811a1,
      0xf7537e82, 0xbd3af235, 0x2ad7d2bb, 0xeb86d391]"

text \<open>Little-endian bytes of a word, and the word of four little-endian bytes.\<close>

definition le_bytes32 :: "32 word \<Rightarrow> 8 word list" where
  "le_bytes32 w = map (\<lambda>i. ucast (drop_bit (8 * i) w)) [0, 1, 2, 3]"

definition le_bytes64 :: "64 word \<Rightarrow> 8 word list" where
  "le_bytes64 w = map (\<lambda>i. ucast (drop_bit (8 * i) w)) [0, 1, 2, 3, 4, 5, 6, 7]"

fun le_word32 :: "8 word list \<Rightarrow> 32 word" where
  "le_word32 [] = 0"
| "le_word32 (b # bs) = ucast b OR push_bit 8 (le_word32 bs)"

text \<open>
  Padding: one 0x80 byte, zero bytes up to 56 modulo 64, then the message length
  in bits as a 64-bit little-endian number.
\<close>

definition md5_pad :: "8 word list \<Rightarrow> 8 word list" where
  "md5_pad msg =
     msg @ [0x80] @ replicate ((119 - length msg mod 64) mod 64) 0
         @ le_bytes64 (of_nat (8 * length msg))"

fun chunks :: "nat \<Rightarrow> nat \<Rightarrow> 'a list \<Rightarrow> 'a list list" where
  "chunks 0 n xs = []"
| "chunks (Suc k) n xs = take n xs # chunks k n (drop n xs)"

definition block_words :: "8 word list \<Rightarrow> 32 word list" where
  "block_words block = map le_word32 (chunks 16 4 block)"

type_synonym md5_state = "32 word \<times> 32 word \<times> 32 word \<times> 32 word"

definition md5_step :: "32 word list \<Rightarrow> md5_state \<Rightarrow> nat \<Rightarrow> md5_state" where
  "md5_step m st i =
     (case st of (a, b, c, d) \<Rightarrow>
        let (f, g) =
              (if i < 16 then ((b AND c) OR (NOT b AND d), i)
               else if i < 32 then ((d AND b) OR (NOT d AND c), (5 * i + 1) mod 16)
               else if i < 48 then (b XOR c XOR d, (3 * i + 5) mod 16)
               else (c XOR (b OR NOT d), (7 * i) mod 16));
            f' = f + a + md5_consts ! i + m ! g
        in (d, b + word_rotl (md5_shifts ! i) f', b, c))"

definition md5_block :: "md5_state \<Rightarrow> 8 word list \<Rightarrow> md5_state" where
  "md5_block st block =
     (case st of (a0, b0, c0, d0) \<Rightarrow>
        case foldl (md5_step (block_words block)) st [0..<64] of
          (a, b, c, d) \<Rightarrow> (a0 + a, b0 + b, c0 + c, d0 + d))"

definition md5 :: "8 word list \<Rightarrow> 8 word list" where
  "md5 msg =
     (let padded = md5_pad msg;
          blocks = chunks (length padded div 64) 64 padded
      in case foldl md5_block (0x67452301, 0xefcdab89, 0x98badcfe, 0x10325476) blocks of
           (a, b, c, d) \<Rightarrow> le_bytes32 a @ le_bytes32 b @ le_bytes32 c @ le_bytes32 d)"

definition hex_digit :: "nat \<Rightarrow> char" where
  "hex_digit n = ''0123456789abcdef'' ! (n mod 16)"

definition hexdigest :: "8 word list \<Rightarrow> string" where
  "hexdigest bs = concat (map (\<lambda>b. [hex_digit (unat b div 16), hex_digit (unat b)]) bs)"

section \<open>Identifier derivation (\<open>app/api/routes/deployments.py\<close>)\<close>

definition sanitize_k8s_name :: "string \<Rightarrow> string" where
  "sanitize_k8s_name v =
     (let sanitized = map (\<lambda>c. if is_lower_alnum c \<or> c = CHR ''-'' then c else CHR ''-'')
                          (py_lower v);
          sanitized = collapse_runs (CHR ''-'') sanitized
      in py_strip (CHR ''-'') sanitized)"

definition sanitize_airflow_conn_id :: "string \<Rightarrow> string" where
  "sanitize_airflow_conn_id v =
     (let sanitized = map (\<lambda>c. if is_lower_alnum c \<or> c = CHR ''_'' then c else CHR ''_'')
                          (py_lower v);
          sanitized = collapse_runs (CHR ''_'') sanitized;
          sanitized = py_strip (CHR ''_'') sanitized
      in py_slice_to sanitized 250)"

text \<open>
  \<open>git_branch\<close> is optional (\<open>None\<close> by default); \<open>if git_branch\<close> is false for
  \<open>None\<close> and for the empty string.
\<close>

definition k8s_resource_name :: "string \<Rightarrow> string option \<Rightarrow> string" where
  "k8s_resource_name project_name git_branch =
     (let base = sanitize_k8s_name project_name;
          full_name = (case git_branch of
                         None \<Rightarrow> base
                       | Some br \<Rightarrow> if br \<noteq> [] then base @ ''-'' @ br else base);
          name_hash = py_slice_to (hexdigest (md5 (encode full_name))) 8;
          max_base_length = 63 - 14;
          base = (if int (length base) > max_base_length
                  then py_slice_to base max_base_length else base)
      in ''dbt-'' @ base @ ''-'' @ name_hash)"

definition airflow_connection_id :: "string \<Rightarrow> string option \<Rightarrow> string" where
  "airflow_connection_id project_name git_branch = k8s_resource_name project_name git_branch"

definition get_volume_name :: "string \<Rightarrow> string \<Rightarrow> string" where
  "get_volume_name prefix k8s_name =
     (let max_k8s_name_length = 63 - int (length prefix) - 1;
          k8s_name = (if int (length k8s_name) > max_k8s_name_length
                      then py_slice_to k8s_name max_k8s_name_length else k8s_name)
      in prefix @ ''-'' @ k8s_name)"

section \<open>The external world\<close>

text \<open>
  The service keeps no state of its own: every effect is a call to the release tool or
  the cluster tool (\<open>subprocess.run\<close>), to the orchestrator's HTTP API (\<open>requests\<close>)
  or to the template engine. A call is recorded as a value, and the world answers a
  call from the calls made before it, so a tool may answer the same command differently
  the second time. Each operation below takes the calls made so far and returns its
  result together with the calls it made, in order.
\<close>

datatype proc_result =
    Completed int string string \<comment> \<open>return code, stdout, stderr\<close>
  | Raised string \<comment> \<open>\<open>subprocess.run\<close> itself raised; the text is \<open>str(e)\<close>\<close>

datatype http_result =
    Responded nat string "string option"
      \<comment> \<open>status code, reason phrase, and the error of \<open>response.json()\<close> if the body is not JSON\<close>
  | RequestFailed string \<comment> \<open>no response (connection error, timeout); the text is \<open>str(e)\<close>\<close>

record conn_data =
  conn_type :: string
  connection_id :: "string option"
  description :: string
  host :: string
  login :: string
  password :: string
  port :: "nat option"
  schema :: "string option"
  extra :: "string option"

datatype call =
    Subprocess "string list"
  | SessionRequest string string "conn_data option" \<comment> \<open>method, URL, JSON body\<close>
  | RequestsDelete string \<comment> \<open>URL\<close>
  | RenderTemplate string string string string string
      \<comment> \<open>template path, output path, \<open>k8s_name\<close> and the two volume names of the context\<close>

record release =
  name :: string
  release_namespace :: string
  chart :: string
  app_version :: string
  updated :: string

record world =
  run :: "call list \<Rightarrow> string list \<Rightarrow> proc_result"
  request :: "call list \<Rightarrow> string \<Rightarrow> string \<Rightarrow> conn_data option \<Rightarrow> http_result"
  delete :: "call list \<Rightarrow> string \<Rightarrow> http_result"
  render :: "call list \<Rightarrow> string \<Rightarrow> string \<Rightarrow> string \<Rightarrow> string \<Rightarrow> string \<Rightarrow> string option"
    \<comment> \<open>\<open>Some msg\<close>: the template engine or the file write raised\<close>
  json_loads :: "string \<Rightarrow> release list option"
    \<comment> \<open>\<open>json.loads\<close> on the output of \<open>helm list\<close>; \<open>None\<close>: it raised\<close>
  now :: "call list \<Rightarrow> string" \<comment> \<open>\<open>str(datetime.now())\<close>\<close>

record config =
  HELM_REPO_NAME :: string
  HELM_REPO_URL :: string
  HELM_CHART_VERSION :: string
  AIRFLOW_URL :: string
  chart_path :: string

datatype exn =
    HTTPError nat string \<comment> \<open>\<open>e.response.status_code\<close> and \<open>str(e)\<close>\<close>
  | CalledProcessError string \<comment> \<open>\<open>e.stderr\<close>\<close>
  | OtherError string \<comment> \<open>\<open>str(e)\<close>\<close>

fun str_exn :: "exn \<Rightarrow> string" where
  "str_exn (HTTPError code msg) = msg"
| "str_exn (CalledProcessError err) = err"
| "str_exn (OtherError msg) = msg"

section \<open>The orchestrator client (\<open>app/services/airflow_service.py\<close>)\<close>

function show_nat :: "nat \<Rightarrow> string" where
  "show_nat n =
     (if n < 10 then [hex_digit n] else show_nat (n div 10) @ [hex_digit (n mod 10)])"
  by pat_completeness auto
termination
  by (relation "measure id") auto

text \<open>\<open>response.raise_for_status()\<close>: a 4xx or 5xx status raises \<open>HTTPError\<close>.\<close>

definition raise_for_status :: "string \<Rightarrow> nat \<Rightarrow> string \<Rightarrow> exn option" where
  "raise_for_status url code reason =
     (if 400 \<le> code \<and> code < 500
      then Some (HTTPError code (show_nat code @ '' Client Error: '' @ reason @ '' for url: '' @ url))
      else if 500 \<le> code \<and> code < 600
      then Some (HTTPError code (show_nat code @ '' Server Error: '' @ reason @ '' for url: '' @ url))
      else None)"

definition py_rstrip :: "char \<Rightarrow> string \<Rightarrow> string" where
  "py_rstrip c s = rev (dropWhile (\<lambda>x. x = c) (rev s))"

text \<open>
  \<open>urljoin(f"{self.base_url}/", endpoint)\<close> with \<open>self.base_url = base_url.rstrip('/')\<close>:
  the endpoints used here are relative paths, which \<open>urljoin\<close> appends to a base that
  ends in a slash.
\<close>

definition endpoint_url :: "string \<Rightarrow> string \<Rightarrow> string" where
  "endpoint_url base_url endpoint = py_rstrip (CHR ''/'') base_url @ ''/'' @ endpoint"

definition make_request ::
  "world \<Rightarrow> string \<Rightarrow> call list \<Rightarrow> string \<Rightarrow> string \<Rightarrow> conn_data option \<Rightarrow> exn option \<times> call list"
where
  "make_request w base_url h method endpoint data =
     (let url = endpoint_url base_url endpoint
      in (case request w h method url data of
            RequestFailed msg \<Rightarrow> Some (OtherError msg)
          | Responded code reason json_err \<Rightarrow>
              (case raise_for_status url code reason of
                 Some e \<Rightarrow> Some e
               | None \<Rightarrow> (case json_err of Some msg \<Rightarrow> Some (OtherError msg) | None \<Rightarrow> None)),
          [SessionRequest method url data]))"

definition create_connection ::
  "world \<Rightarrow> string \<Rightarrow> call list \<Rightarrow> conn_data \<Rightarrow> exn option \<times> call list" where
  "create_connection w base_url h connection_data =
     make_request w base_url h ''POST'' ''api/v1/connections'' (Some connection_data)"

definition update_connection ::
  "world \<Rightarrow> string \<Rightarrow> call list \<Rightarrow> string \<Rightarrow> conn_data \<Rightarrow> exn option \<times> call list" where
  "update_connection w base_url h conn_id connection_data =
     make_request w base_url h ''PATCH'' (''api/v1/connections/'' @ conn_id) (Some connection_data)"

definition get_connection ::
  "world \<Rightarrow> string \<Rightarrow> call list \<Rightarrow> string \<Rightarrow> exn option \<times> call list" where
  "get_connection w base_url h conn_id =
     make_request w base_url h ''GET'' (''api/v1/connections/'' @ conn_id) None"

definition delete_connection ::
  "world \<Rightarrow> string \<Rightarrow> call list \<Rightarrow> string \<Rightarrow> exn option \<times> call list" where
  "delete_connection w base_url h conn_id =
     (let url = endpoint_url base_url (''api/v1/connections/'' @ conn_id)
      in (case delete w h url of
            RequestFailed msg \<Rightarrow> Some (OtherError msg)
          | Responded code reason json_err \<Rightarrow>
              if code \<noteq> 204 \<and> code \<noteq> 404 then raise_for_status url code reason else None,
          [RequestsDelete url]))"

definition create_dbt_connection ::
  "world \<Rightarrow> string \<Rightarrow> call list \<Rightarrow> string \<Rightarrow> string \<Rightarrow> string \<Rightarrow> string \<Rightarrow> string
     \<Rightarrow> exn option \<times> call list"
where
  "create_dbt_connection w base_url h conn_id hst lgn pwd descr =
     create_connection w base_url h
       \<lparr>conn_type = ''http'', connection_id = Some conn_id, description = descr, host = hst,
        login = lgn, password = pwd, port = None, schema = Some [], extra = Some []\<rparr>"

section \<open>Requests and responses\<close>

text \<open>The fields of the validated request body that the deployment routes read.\<close>

record deployment =
  project_name :: string
  git_branch :: "string option"
  namespace :: string
  customer :: string
  domain :: string
  https_enabled :: bool
  basic_auth_user :: string
  basic_auth_password :: string

datatype details =
    ErrorDetails string \<comment> \<open>\<open>error\<close>\<close>
  | NotFoundDetails string "string list" \<comment> \<open>\<open>error\<close>, \<open>available_releases\<close>\<close>
  | DeployDetails string string string "string option" string string string
      \<comment> \<open>\<open>release_name\<close>, \<open>namespace\<close>, \<open>host\<close>, \<open>status\<close>, and \<open>airflow_connection\<close>:
          \<open>id\<close>, \<open>host\<close>, \<open>status\<close>\<close>
  | DeleteDetails string string "string list" string string "string option"
      \<comment> \<open>\<open>release_name\<close>, \<open>namespace\<close>, \<open>pvc_deleted\<close>, and \<open>airflow_connection\<close>:
          \<open>id\<close>, \<open>status\<close>, \<open>error\<close>\<close>

record response =
  status :: string
  message :: string
  details :: details
  code :: nat \<comment> \<open>the HTTP status; 200 where the route returns the body alone\<close>

fun connection_status_of :: "details \<Rightarrow> string option" where
  "connection_status_of (DeployDetails rn ns hst st cid chost cst) = Some cst"
| "connection_status_of (DeleteDetails rn ns pvcs cid cst cerr) = Some cst"
| "connection_status_of _ = None"

fun connection_host_of :: "details \<Rightarrow> string option" where
  "connection_host_of (DeployDetails rn ns hst st cid chost cst) = Some chost"
| "connection_host_of _ = None"

fun details_namespace :: "details \<Rightarrow> string option" where
  "details_namespace (DeployDetails rn ns hst st cid chost cst) = Some ns"
| "details_namespace (DeleteDetails rn ns pvcs cid cst cerr) = Some ns"
| "details_namespace _ = None"

text \<open>The body of the routes' outermost \<open>except Exception as e\<close>.\<close>

definition internal_error :: "exn \<Rightarrow> response" where
  "internal_error e =
     \<lparr>status = ''error'', message = str_exn e, details = ErrorDetails (str_exn e), code = 500\<rparr>"

section \<open>The release tool (\<open>app/api/routes/deployments.py\<close>)\<close>

definition get_helm_releases :: "world \<Rightarrow> call list \<Rightarrow> string \<Rightarrow> release list \<times> call list" where
  "get_helm_releases w h ns =
     (let cmd = [''helm'', ''list'', ''-n'', ns, ''--output'', ''json'']
      in (case run w h cmd of
            Raised msg \<Rightarrow> []
          | Completed returncode out err \<Rightarrow>
              if returncode \<noteq> 0 then []
              else (case json_loads w out of None \<Rightarrow> [] | Some releases \<Rightarrow> releases),
          [Subprocess cmd]))"

text \<open>The result is Python's \<open>None\<close> or the standard output of \<open>helm status\<close>.\<close>

definition get_helm_status ::
  "world \<Rightarrow> call list \<Rightarrow> string \<Rightarrow> string \<Rightarrow> string option \<times> call list" where
  "get_helm_status w h release_name ns =
     (case get_helm_releases w h ns of
        (releases, t1) \<Rightarrow>
          if \<not> list_ex (\<lambda>r. name r = release_name) releases then (None, t1)
          else
            let cmd = [''helm'', ''status'', release_name, ''-n'', ns]
            in (case run w (h @ t1) cmd of
                  Raised msg \<Rightarrow> None
                | Completed returncode out err \<Rightarrow> if returncode \<noteq> 0 then None else Some out,
                t1 @ [Subprocess cmd]))"

text \<open>\<open>subprocess.run(cmd, check=True, capture_output=True)\<close>.\<close>

definition run_checked :: "world \<Rightarrow> call list \<Rightarrow> string list \<Rightarrow> exn option \<times> call list" where
  "run_checked w h cmd =
     (case run w h cmd of
        Raised msg \<Rightarrow> Some (OtherError msg)
      | Completed returncode out err \<Rightarrow>
          if returncode \<noteq> 0 then Some (CalledProcessError err) else None,
      [Subprocess cmd])"

definition render_values_file ::
  "config \<Rightarrow> world \<Rightarrow> call list \<Rightarrow> deployment \<Rightarrow> (exn + string) \<times> call list" where
  "render_values_file cfg w h data =
     (let template_values_path = chart_path cfg @ ''/template_values.yaml'';
          values_path = chart_path cfg @ ''/values.yaml'';
          k8s_name = k8s_resource_name (project_name data) (git_branch data);
          datawarehouse_secrets_volume =
            get_volume_name ''dbt-server-datawarehouse-secrets'' k8s_name;
          nginx_proxy_volume = get_volume_name ''dbt-server-nginx-proxy'' k8s_name
      in (case render w h template_values_path values_path k8s_name
                 datawarehouse_secrets_volume nginx_proxy_volume of
            Some msg \<Rightarrow> Inl (OtherError msg)
          | None \<Rightarrow> Inr values_path,
          [RenderTemplate template_values_path values_path k8s_name
             datawarehouse_secrets_volume nginx_proxy_volume]))"

section \<open>Create or update (\<open>deploy_dbt_server\<close>)\<close>

text \<open>
  The endpoint recorded in the connection, computed after the release tool has
  succeeded.
\<close>

definition connection_host :: "deployment \<Rightarrow> string \<Rightarrow> string" where
  "connection_host json_data k8s_name =
     (if https_enabled json_data
      then ''https://dbt-server-'' @ k8s_name @ ''.'' @ customer json_data @ ''.''
             @ domain json_data @ ''/invocations''
      else ''http://dbt-server-'' @ k8s_name @ ''.'' @ namespace json_data
             @ ''.svc.cluster.local/invocations'')"

text \<open>
  The \<open>except\<close> clauses of the connection block. The result is the value of
  \<open>airflow_connection_status\<close> when the block is left, and the exception that leaves it,
  if one does.
\<close>

definition connection_failed ::
  "config \<Rightarrow> world \<Rightarrow> call list \<Rightarrow> deployment \<Rightarrow> string \<Rightarrow> string \<Rightarrow> exn
     \<Rightarrow> (string \<times> exn option) \<times> call list"
where
  "connection_failed cfg w h json_data airflow_id hst e =
     (case e of
        HTTPError status_code msg \<Rightarrow>
          if status_code = 404
          then (case create_dbt_connection w (AIRFLOW_URL cfg) h airflow_id hst
                       (basic_auth_user json_data) (basic_auth_password json_data)
                       (''Configuration to call '' @ hst) of
                  (None, t) \<Rightarrow> ((''created'', None), t)
                | (Some e', t) \<Rightarrow> ((''created'', Some e'), t))
          else ((''error'', Some e), [])
      | _ \<Rightarrow> ((''error'', Some e), []))"

definition sync_connection ::
  "config \<Rightarrow> world \<Rightarrow> call list \<Rightarrow> deployment \<Rightarrow> string \<Rightarrow> string
     \<Rightarrow> (string \<times> exn option) \<times> call list"
where
  "sync_connection cfg w h json_data airflow_id hst =
     (case get_connection w (AIRFLOW_URL cfg) h airflow_id of
        (Some e, t1) \<Rightarrow>
          (case connection_failed cfg w (h @ t1) json_data airflow_id hst e of
             (r, t2) \<Rightarrow> (r, t1 @ t2))
      | (None, t1) \<Rightarrow>
          (case update_connection w (AIRFLOW_URL cfg) (h @ t1) airflow_id
                  \<lparr>conn_type = ''http'', connection_id = Some airflow_id,
                   description = ''Update at: '' @ now w (h @ t1)
                                 @ '' - Configuration to call '' @ hst,
                   host = hst, login = basic_auth_user json_data,
                   password = basic_auth_password json_data,
                   port = None, schema = Some [], extra = Some []\<rparr> of
             (None, t2) \<Rightarrow> ((''updated'', None), t1 @ t2)
           | (Some e, t2) \<Rightarrow>
               (case connection_failed cfg w (h @ t1 @ t2) json_data airflow_id hst e of
                  (r, t3) \<Rightarrow> (r, t1 @ t2 @ t3))))"

definition helm_repo_setup :: "config \<Rightarrow> world \<Rightarrow> call list \<Rightarrow> exn option \<times> call list" where
  "helm_repo_setup cfg w h =
     (case run_checked w h [''helm'', ''repo'', ''add'', HELM_REPO_NAME cfg, HELM_REPO_URL cfg] of
        (Some e, t1) \<Rightarrow> (Some e, t1)
      | (None, t1) \<Rightarrow>
          (case run_checked w (h @ t1) [''helm'', ''repo'', ''update'', HELM_REPO_NAME cfg] of
             (r, t2) \<Rightarrow> (r, t1 @ t2)))"

text \<open>The route from the connection block to its end, the release being applied.\<close>

definition deploy_connection_and_report ::
  "config \<Rightarrow> world \<Rightarrow> call list \<Rightarrow> deployment \<Rightarrow> string \<Rightarrow> response \<times> call list" where
  "deploy_connection_and_report cfg w h json_data k8s_name =
     (let release_name = k8s_name;
          airflow_id = k8s_name;
          hst = connection_host json_data k8s_name
      in case sync_connection cfg w h json_data airflow_id hst of
           ((airflow_connection_status, Some e), t1) \<Rightarrow> (internal_error e, t1)
         | ((airflow_connection_status, None), t1) \<Rightarrow>
             (case get_helm_status w (h @ t1) release_name (namespace json_data) of
                (st, t2) \<Rightarrow>
                  (\<lparr>status = ''success'',
                    message = ''Deployment '' @ release_name @ '' created/updated successfully'',
                    details = DeployDetails release_name (namespace json_data)
                                (''dbt-server-'' @ k8s_name @ ''.'' @ customer json_data @ ''.''
                                   @ domain json_data)
                                st airflow_id hst airflow_connection_status,
                    code = 200\<rparr>,
                   t1 @ t2)))"

definition deploy_dbt_server ::
  "config \<Rightarrow> world \<Rightarrow> call list \<Rightarrow> deployment \<Rightarrow> response \<times> call list" where
  "deploy_dbt_server cfg w h json_data =
     (let k8s_name = k8s_resource_name (project_name json_data) (git_branch json_data);
          release_name = k8s_name
      in case render_values_file cfg w h json_data of
           (Inl e, t1) \<Rightarrow> (internal_error e, t1)
         | (Inr values_file, t1) \<Rightarrow>
             (case helm_repo_setup cfg w (h @ t1) of
                (Some (CalledProcessError err), t2) \<Rightarrow>
                  (\<lparr>status = ''error'', message = ''Failed to setup Helm repository'',
                    details = ErrorDetails err, code = 500\<rparr>, t1 @ t2)
              | (Some e, t2) \<Rightarrow> (internal_error e, t1 @ t2)
              | (None, t2) \<Rightarrow>
                  (let cmd = [''helm'', ''upgrade'', ''-i'', release_name,
                              HELM_REPO_NAME cfg @ ''/raw'',
                              ''--version'', HELM_CHART_VERSION cfg,
                              ''--namespace'', namespace json_data,
                              ''--wait'', ''--values'', values_file];
                       t3 = t1 @ t2 @ [Subprocess cmd]
                   in case run w (h @ t1 @ t2) cmd of
                        Raised msg \<Rightarrow> (internal_error (OtherError msg), t3)
                      | Completed returncode out err \<Rightarrow>
                          if returncode \<noteq> 0
                          then (\<lparr>status = ''error'', message = ''Failed to deploy application'',
                                 details = ErrorDetails err, code = 500\<rparr>, t3)
                          else (case deploy_connection_and_report cfg w (h @ t3) json_data k8s_name of
                                  (resp, t4) \<Rightarrow> (resp, t3 @ t4)))))"

section \<open>Delete (\<open>delete_deployment\<close>)\<close>

text \<open>
  \<open>str.isspace\<close> on the Latin-1 range, and \<open>s.strip().split()\<close>: the maximal runs of
  characters that are not white space.
\<close>

definition is_space :: "char \<Rightarrow> bool" where
  "is_space c =
     (let n = (of_char c :: nat)
      in (9 \<le> n \<and> n \<le> 13) \<or> (28 \<le> n \<and> n \<le> 32) \<or> n = 133 \<or> n = 160)"

fun split_acc :: "string \<Rightarrow> string \<Rightarrow> string list" where
  "split_acc cur [] = (if cur = [] then [] else [rev cur])"
| "split_acc cur (c # cs) =
     (if is_space c then (if cur = [] then split_acc [] cs else rev cur # split_acc [] cs)
      else split_acc (c # cur) cs)"

definition py_strip_split :: "string \<Rightarrow> string list" where
  "py_strip_split s =
     split_acc [] (rev (dropWhile is_space (rev (dropWhile is_space s))))"

definition startswith :: "string \<Rightarrow> string \<Rightarrow> bool" where
  "startswith s p = (take (length p) s = p)"

text \<open>
  The loop over the claim names. An exception of \<open>subprocess.run\<close> leaves the loop and
  the route's \<open>try\<close>; a non-zero return code is logged and the loop goes on.
\<close>

fun delete_pvcs ::
  "world \<Rightarrow> call list \<Rightarrow> string \<Rightarrow> string \<Rightarrow> string list \<Rightarrow> (exn + string list) \<times> call list"
where
  "delete_pvcs w h ns pvc_prefix [] = (Inr [], [])"
| "delete_pvcs w h ns pvc_prefix (pvc # pvc_names) =
     (if startswith pvc pvc_prefix
      then
        let del_cmd = [''kubectl'', ''delete'', ''pvc'', pvc, ''-n'', ns, ''--ignore-not-found=true'']
        in case run w h del_cmd of
             Raised msg \<Rightarrow> (Inl (OtherError msg), [Subprocess del_cmd])
           | Completed returncode out err \<Rightarrow>
               (case delete_pvcs w (h @ [Subprocess del_cmd]) ns pvc_prefix pvc_names of
                  (Inl e, t) \<Rightarrow> (Inl e, Subprocess del_cmd # t)
                | (Inr deleted, t) \<Rightarrow>
                    (Inr (if returncode = 0 then pvc # deleted else deleted),
                     Subprocess del_cmd # t))
      else delete_pvcs w h ns pvc_prefix pvc_names)"

definition cleanup_pvcs ::
  "world \<Rightarrow> call list \<Rightarrow> string \<Rightarrow> string \<Rightarrow> (exn + string list) \<times> call list" where
  "cleanup_pvcs w h ns k8s_name =
     (let pvc_prefix = ''dbt-server-'' @ k8s_name @ ''-dbt-server-'' @ k8s_name @ ''-'';
          get_pvc_cmd = [''kubectl'', ''get'', ''pvc'', ''-n'', ns, ''-o'',
                         ''jsonpath={.items[*].metadata.name}'']
      in case run w h get_pvc_cmd of
           Raised msg \<Rightarrow> (Inl (OtherError msg), [Subprocess get_pvc_cmd])
         | Completed returncode out err \<Rightarrow>
             if returncode = 0
             then (case delete_pvcs w (h @ [Subprocess get_pvc_cmd]) ns pvc_prefix
                          (py_strip_split out) of
                     (r, t) \<Rightarrow> (r, Subprocess get_pvc_cmd # t))
             else (Inr [], [Subprocess get_pvc_cmd]))"

text \<open>
  The connection block of the delete route: the values of \<open>airflow_connection_status\<close>
  and \<open>airflow_error_message\<close> after it. No exception leaves it.
\<close>

definition connection_delete_failed :: "exn \<Rightarrow> string \<times> string option" where
  "connection_delete_failed e =
     (case e of
        HTTPError status_code msg \<Rightarrow>
          if status_code = 404 then (''not_found'', None) else (''error'', Some (str_exn e))
      | _ \<Rightarrow> (''error'', Some (str_exn e)))"

definition remove_connection ::
  "config \<Rightarrow> world \<Rightarrow> call list \<Rightarrow> string \<Rightarrow> (string \<times> string option) \<times> call list" where
  "remove_connection cfg w h k8s_name =
     (case get_connection w (AIRFLOW_URL cfg) h k8s_name of
        (Some e, t1) \<Rightarrow> (connection_delete_failed e, t1)
      | (None, t1) \<Rightarrow>
          (case delete_connection w (AIRFLOW_URL cfg) (h @ t1) k8s_name of
             (Some e, t2) \<Rightarrow> (connection_delete_failed e, t1 @ t2)
           | (None, t2) \<Rightarrow> ((''deleted'', None), t1 @ t2)))"

text \<open>The route after the release has been uninstalled.\<close>

definition delete_dependents_and_report ::
  "config \<Rightarrow> world \<Rightarrow> call list \<Rightarrow> string \<Rightarrow> string \<Rightarrow> response \<times> call list" where
  "delete_dependents_and_report cfg w h ns k8s_name =
     (case cleanup_pvcs w h ns k8s_name of
        (Inl e, t1) \<Rightarrow> (internal_error e, t1)
      | (Inr deleted_pvcs, t1) \<Rightarrow>
          (case remove_connection cfg w (h @ t1) k8s_name of
             ((airflow_connection_status, airflow_error_message), t2) \<Rightarrow>
               (\<lparr>status = ''success'',
                 message = ''Deployment '' @ k8s_name
                           @ '' and associated resources deleted successfully'',
                 details = DeleteDetails k8s_name ns deleted_pvcs k8s_name
                             airflow_connection_status airflow_error_message,
                 code = 200\<rparr>,
                t1 @ t2)))"

definition delete_deployment ::
  "config \<Rightarrow> world \<Rightarrow> call list \<Rightarrow> string \<Rightarrow> response \<times> call list" where
  "delete_deployment cfg w h deployment_id =
     (let k8s_name = deployment_id;
          ns = ''dbt-server''
      in case get_helm_releases w h ns of
           (releases, t1) \<Rightarrow>
             if \<not> list_ex (\<lambda>r. name r = k8s_name) releases
             then (\<lparr>status = ''error'',
                    message = ''Deployment '' @ k8s_name @ '' not found in namespace '' @ ns,
                    details = NotFoundDetails ''Deployment not found'' (map name releases),
                    code = 404\<rparr>, t1)
             else
               (let cmd = [''helm'', ''uninstall'', k8s_name, ''-n'', ns];
                    t2 = t1 @ [Subprocess cmd]
                in (case run w (h @ t1) cmd of
                      Raised msg \<Rightarrow> (internal_error (OtherError msg), t2)
                    | Completed returncode out err \<Rightarrow>
                        if returncode \<noteq> 0
                        then (\<lparr>status = ''error'', message = ''Failed to delete deployment'',
                               details = ErrorDetails err, code = 500\<rparr>, t2)
                        else (case delete_dependents_and_report cfg w (h @ t2) ns k8s_name of
                                (resp, t3) \<Rightarrow> (resp, t2 @ t3)))))"

section \<open>Request validation (\<open>app/api/schemas/deployment.py\<close>)\<close>

text \<open>
  A schema object has, or has not, an attribute \<open>context\<close>: a dictionary from keys to
  dictionaries. A method decorated with \<open>validates\<close> receives the schema and the
  deserialised value of its field, and nothing else; \<open>self.context.get('data', {})\<close>
  is the dictionary stored under \<open>data\<close>, or a new empty one that nothing else refers to.
\<close>

type_synonym pydict = "string \<rightharpoonup> string"

record schema_obj =
  schema_context :: "(string \<rightharpoonup> pydict) option"

definition falsy :: "string option \<Rightarrow> bool" where
  "falsy v = (case v of None \<Rightarrow> True | Some s \<Rightarrow> s = [])"

definition sync_data_warehouse_fields :: "schema_obj \<Rightarrow> string \<Rightarrow> schema_obj \<times> string" where
  "sync_data_warehouse_fields self v =
     (case schema_context self of
        None \<Rightarrow> (self, v)
      | Some ctx \<Rightarrow>
          if v \<noteq> [] then
            (case ctx ''data'' of
               None \<Rightarrow> (self, v)
             | Some data \<Rightarrow>
                 if falsy (data ''datawarehouse_type'')
                 then (self\<lparr>schema_context := Some (ctx(''data'' \<mapsto> data(''datawarehouse_type'' \<mapsto> v)))\<rparr>, v)
                 else (self, v))
          else (self, v))"

definition sync_datawarehouse_fields :: "schema_obj \<Rightarrow> string \<Rightarrow> schema_obj \<times> string" where
  "sync_datawarehouse_fields self v =
     (case schema_context self of
        None \<Rightarrow> (self, v)
      | Some ctx \<Rightarrow>
          if v \<noteq> [] then
            (case ctx ''data'' of
               None \<Rightarrow> (self, v)
             | Some data \<Rightarrow>
                 if falsy (data ''data_warehouse_platform'')
                 then (self\<lparr>schema_context := Some (ctx(''data'' \<mapsto> data(''data_warehouse_platform'' \<mapsto> v)))\<rparr>, v)
                 else (self, v))
          else (self, v))"

text \<open>
  Loading the two fields: a field missing from the request takes its \<open>load_default\<close>,
  the empty string; the field validators then run on the deserialised values, their
  return values are dropped, and the deserialised dictionary is the result.
\<close>

definition deserialize_dw :: "pydict \<Rightarrow> pydict" where
  "deserialize_dw raw =
     [''datawarehouse_type'' \<mapsto> (case raw ''datawarehouse_type'' of None \<Rightarrow> [] | Some v \<Rightarrow> v),
      ''data_warehouse_platform'' \<mapsto>
         (case raw ''data_warehouse_platform'' of None \<Rightarrow> [] | Some v \<Rightarrow> v)]"

definition load_dw :: "schema_obj \<Rightarrow> pydict \<Rightarrow> schema_obj \<times> pydict" where
  "load_dw self raw =
     (let result = deserialize_dw raw;
          (self, r1) = sync_data_warehouse_fields self (the (result ''data_warehouse_platform''));
          (self, r2) = sync_datawarehouse_fields self (the (result ''datawarehouse_type''))
      in (self, result))"

section \<open>Concrete configurations, requests and worlds\<close>

definition example_config :: config where
  "example_config =
     \<lparr>HELM_REPO_NAME = ''kube-core'', HELM_REPO_URL = ''https://kube-core.github.io/helm-charts'',
      HELM_CHART_VERSION = ''0.1.0'', AIRFLOW_URL = ''http://airflow:8080'',
      chart_path = ''/app/charts''\<rparr>"

definition example_request :: deployment where
  "example_request =
     \<lparr>project_name = ''Fastbi Demo!'', git_branch = Some ''main'', namespace = ''dbt-server'',
      customer = ''fastbi'', domain = ''fast.bi'', https_enabled = False,
      basic_auth_user = ''agent'', basic_auth_password = ''secret-password''\<rparr>"

definition example_release :: release where
  "example_release =
     \<lparr>name = ''dbt-fastbi-demo-98d66ba2'', release_namespace = ''dbt-server'',
      chart = ''raw-0.1.0'', app_version = ''1.0.0'', updated = ''2025-01-01''\<rparr>"

text \<open>
  Every tool run succeeds and prints \<open>deployed\<close>, the release listing holds the example
  release, and the orchestrator accepts every request.
\<close>

definition healthy_world :: world where
  "healthy_world =
     \<lparr>run = (\<lambda>h cmd. Completed 0 ''deployed'' []),
      request = (\<lambda>h m u d. Responded 200 ''OK'' None),
      delete = (\<lambda>h u. Responded 204 ''No Content'' None),
      render = (\<lambda>h a b c d e. None),
      json_loads = (\<lambda>s. Some [example_release]),
      now = (\<lambda>h. ''2025-01-01 00:00:00'')\<rparr>"

text \<open>The same, but the orchestrator answers every request with status 500.\<close>

definition failing_airflow_world :: world where
  "failing_airflow_world =
     healthy_world\<lparr>request := (\<lambda>h m u d. Responded 500 ''Internal Server Error'' None)\<rparr>"

text \<open>The same as the healthy world, but no release is listed.\<close>

definition empty_world :: world where
  "empty_world = healthy_world\<lparr>json_loads := (\<lambda>s. Some [])\<rparr>"

text \<open>The same, but \<open>helm status\<close> exits with code 1.\<close>

definition failing_status_world :: world where
  "failing_status_world =
     healthy_world\<lparr>run := (\<lambda>h cmd. if take 2 cmd = [''helm'', ''status'']
                                   then Completed 1 [] ''Error: release: not found''
                                   else Completed 0 ''deployed'' [])\<rparr>"

text \<open>The example release is listed in the namespace \<open>analytics\<close> and in no other.\<close>

definition other_namespace_world :: world where
  "other_namespace_world =
     healthy_world
       \<lparr>run := (\<lambda>h cmd. if cmd = [''helm'', ''list'', ''-n'', ''analytics'', ''--output'', ''json'']
                         then Completed 0 ''analytics'' [] else Completed 0 ''none'' []),
        json_loads := (\<lambda>s. if s = ''analytics'' then Some [example_release] else Some [])\<rparr>"

section \<open>Properties of the identifier derivation\<close>

lemma length_py_slice_to_le: "0 \<le> n \<Longrightarrow> length (py_slice_to xs n) \<le> nat n"
  by (simp add: py_slice_to_def)

lemma k8s_resource_name_shape:
  "\<exists>base h. k8s_resource_name p b = ''dbt-'' @ base @ ''-'' @ h
      \<and> length base \<le> 49 \<and> length h \<le> 8"
proof -
  define base0 where "base0 = sanitize_k8s_name p"
  define base where
    "base = (if int (length base0) > 49 then py_slice_to base0 49 else base0)"
  define full where
    "full = (case b of None \<Rightarrow> base0
             | Some br \<Rightarrow> if br \<noteq> [] then base0 @ ''-'' @ br else base0)"
  define h where "h = py_slice_to (hexdigest (md5 (encode full))) 8"
  have eq: "k8s_resource_name p b = ''dbt-'' @ base @ ''-'' @ h"
    unfolding k8s_resource_name_def Let_def base_def base0_def h_def full_def by simp
  have "length base \<le> 49"
    unfolding base_def using length_py_slice_to_le [of 49 base0] by auto
  moreover have "length h \<le> 8"
    unfolding h_def using length_py_slice_to_le [of 8] by fastforce
  ultimately show ?thesis using eq by blast
qed

lemma k8s_fastbi_demo:
  "k8s_resource_name ''Fastbi Demo!'' (Some ''main'') = ''dbt-fastbi-demo-98d66ba2''"
  by code_simp

lemma sanitize_fastbi_demo: "sanitize_k8s_name ''Fastbi Demo!'' = ''fastbi-demo''"
  by code_simp

text \<open>
  C2. For every project name and optional branch, the connection identifier is exactly
  the resource name: \<open>airflow_connection_id\<close> returns what \<open>k8s_resource_name\<close> returns.
\<close>

theorem airflow_connection_id_is_k8s_resource_name:
  "airflow_connection_id p b = k8s_resource_name p b"
  by (simp add: airflow_connection_id_def)

text \<open>
  C3. For every project name and branch, the resource name is at most 63 characters
  long, and it is a function of the two inputs alone: equal inputs give equal names.
\<close>

theorem k8s_resource_name_deterministic_bounded:
  "length (k8s_resource_name p b) \<le> 63 \<and>
   (p' = p \<and> b' = b \<longrightarrow> k8s_resource_name p' b' = k8s_resource_name p b)"
proof -
  obtain base h where "k8s_resource_name p b = ''dbt-'' @ base @ ''-'' @ h"
    and "length base \<le> 49" and "length h \<le> 8"
    using k8s_resource_name_shape by blast
  then show ?thesis by simp
qed

theorem k8s_resource_name_deterministic_bounded_witness:
  "length (k8s_resource_name ''Fastbi Demo!'' (Some ''main'')) \<le> 63 \<and>
   k8s_resource_name ''Fastbi Demo!'' (Some ''main'') = ''dbt-fastbi-demo-98d66ba2''"
  using k8s_resource_name_deterministic_bounded
          [of "''Fastbi Demo!''" "Some ''main''" "''Fastbi Demo!''" "Some ''main''"]
        k8s_fastbi_demo
  by simp

text \<open>
  C9. The project name \<open>Fastbi Demo!\<close> is sanitised to \<open>fastbi-demo\<close>; with the branch
  \<open>main\<close> the resource name is \<open>dbt-fastbi-demo-\<close> followed by eight lower-case
  hexadecimal digits, and it is at most 63 characters long.
\<close>

theorem fastbi_demo_scenario:
  "sanitize_k8s_name ''Fastbi Demo!'' = ''fastbi-demo'' \<and>
   (\<exists>h. k8s_resource_name ''Fastbi Demo!'' (Some ''main'') = ''dbt-fastbi-demo-'' @ h
        \<and> length h = 8 \<and> set h \<subseteq> set ''0123456789abcdef'') \<and>
   length (k8s_resource_name ''Fastbi Demo!'' (Some ''main'')) \<le> 63"
proof -
  have "k8s_resource_name ''Fastbi Demo!'' (Some ''main'') = ''dbt-fastbi-demo-'' @ ''98d66ba2''"
    using k8s_fastbi_demo by simp
  moreover have "length ''98d66ba2'' = 8 \<and> set ''98d66ba2'' \<subseteq> set ''0123456789abcdef''"
    by simp
  ultimately have
    "\<exists>h. k8s_resource_name ''Fastbi Demo!'' (Some ''main'') = ''dbt-fastbi-demo-'' @ h
        \<and> length h = 8 \<and> set h \<subseteq> set ''0123456789abcdef''"
    by blast
  moreover have "length (k8s_resource_name ''Fastbi Demo!'' (Some ''main'')) \<le> 63"
    using k8s_fastbi_demo by simp
  ultimately show ?thesis using sanitize_fastbi_demo by blast
qed

text \<open>
  C4, as stated: for every prefix and name the volume name is at most 63 characters
  long. It fails for a prefix of 63 characters: the bound on the name is then negative,
  the slice \<open>k8s_name[:-1]\<close> drops one character from the end, and the prefix and the
  hyphen alone are 64 characters.
\<close>

theorem get_volume_name_long_prefix_counterexample:
  "\<not> length (get_volume_name (replicate 63 (CHR ''a'')) []) \<le> 63"
  by (simp add: get_volume_name_def py_slice_to_def)

text \<open>
  C4, amended: for every prefix of at most 62 characters and every name, the volume name
  is at most 63 characters long, and it is the whole prefix, a hyphen, and the first
  \<open>62 - len(prefix)\<close> characters of the name (the whole name when it is shorter).
\<close>

theorem get_volume_name_bounded:
  "length prefix \<le> 62 \<Longrightarrow>
     length (get_volume_name prefix k8s_name) \<le> 63 \<and>
     get_volume_name prefix k8s_name = prefix @ ''-'' @ take (62 - length prefix) k8s_name"
  by (auto simp: get_volume_name_def py_slice_to_def Let_def nat_diff_distrib)

theorem get_volume_name_bounded_witness:
  "length ''dbt-server-datawarehouse-secrets'' \<le> 62 \<and>
   length (get_volume_name ''dbt-server-datawarehouse-secrets''
             ''dbt-fastbi-demo-project-name-98d66ba2'') \<le> 63 \<and>
   get_volume_name ''dbt-server-datawarehouse-secrets'' ''dbt-fastbi-demo-project-name-98d66ba2''
     = ''dbt-server-datawarehouse-secrets-dbt-fastbi-demo-project-name-9''"
  using get_volume_name_bounded
          [of "''dbt-server-datawarehouse-secrets''" "''dbt-fastbi-demo-project-name-98d66ba2''"]
  by simp

section \<open>Properties of the release tool and the routes\<close>

lemmas world_defs = healthy_world_def failing_airflow_world_def empty_world_def
  failing_status_world_def other_namespace_world_def example_config_def example_request_def
  example_release_def

lemma snd_get_helm_releases [simp]:
  "snd (get_helm_releases w h ns)
     = [Subprocess [''helm'', ''list'', ''-n'', ns, ''--output'', ''json'']]"
  by (simp add: get_helm_releases_def Let_def)

lemma get_helm_releases_pair:
  "get_helm_releases w h ns
     = (fst (get_helm_releases w h ns),
        [Subprocess [''helm'', ''list'', ''-n'', ns, ''--output'', ''json'']])"
  by (simp add: get_helm_releases_def Let_def)

lemma example_k8s_name [simp]:
  "k8s_resource_name (project_name example_request) (git_branch example_request)
     = ''dbt-fastbi-demo-98d66ba2''"
  by (simp add: example_request_def k8s_fastbi_demo)

text \<open>
  C5, as stated: the status query returns the string \<open>not found\<close> for a release that is
  not listed and the string \<open>unknown\<close> when the tool fails. It returns neither: with no
  release listed, and with a listed release whose \<open>helm status\<close> exits with code 1, the
  result is \<open>None\<close>.
\<close>

theorem get_helm_status_counterexample:
  "fst (get_helm_status empty_world [] ''dbt-fastbi-demo-98d66ba2'' ''dbt-server'')
     \<noteq> Some ''not found'' \<and>
   fst (get_helm_status failing_status_world [] ''dbt-fastbi-demo-98d66ba2'' ''dbt-server'')
     \<noteq> Some ''unknown''"
  by (simp add: get_helm_status_def get_helm_releases_def world_defs Let_def)

text \<open>
  C5, amended: for every release name and namespace, the status query returns the
  standard output of \<open>helm status\<close> when the release is listed and the command exits
  with code 0; it returns \<open>None\<close> when the release is absent from the listing; and it
  returns \<open>None\<close> when \<open>helm status\<close> cannot be run or exits with another code.
\<close>

theorem get_helm_status_result:
  "(list_ex (\<lambda>r. name r = release_name) (fst (get_helm_releases w h ns))
      \<and> run w (h @ snd (get_helm_releases w h ns))
            [''helm'', ''status'', release_name, ''-n'', ns] = Completed 0 out err
    \<longrightarrow> fst (get_helm_status w h release_name ns) = Some out) \<and>
   (\<not> list_ex (\<lambda>r. name r = release_name) (fst (get_helm_releases w h ns))
    \<longrightarrow> fst (get_helm_status w h release_name ns) = None) \<and>
   ((\<exists>msg. run w (h @ snd (get_helm_releases w h ns))
              [''helm'', ''status'', release_name, ''-n'', ns] = Raised msg)
    \<or> (\<exists>rc out' err'. rc \<noteq> 0 \<and>
          run w (h @ snd (get_helm_releases w h ns))
            [''helm'', ''status'', release_name, ''-n'', ns] = Completed rc out' err')
    \<longrightarrow> fst (get_helm_status w h release_name ns) = None)"
  by (subst (1 2 3) get_helm_status_def, subst (1 2 3) get_helm_releases_pair)
     (auto simp: Let_def split: proc_result.splits)

theorem get_helm_status_result_witness:
  "fst (get_helm_status healthy_world [] ''dbt-fastbi-demo-98d66ba2'' ''dbt-server'')
     = Some ''deployed'' \<and>
   fst (get_helm_status empty_world [] ''dbt-fastbi-demo-98d66ba2'' ''dbt-server'') = None \<and>
   fst (get_helm_status failing_status_world [] ''dbt-fastbi-demo-98d66ba2'' ''dbt-server'')
     = None"
proof -
  have a: "list_ex (\<lambda>r. name r = ''dbt-fastbi-demo-98d66ba2'')
             (fst (get_helm_releases healthy_world [] ''dbt-server''))
           \<and> run healthy_world ([] @ snd (get_helm_releases healthy_world [] ''dbt-server''))
                [''helm'', ''status'', ''dbt-fastbi-demo-98d66ba2'', ''-n'', ''dbt-server'']
               = Completed 0 ''deployed'' []"
    by (simp add: get_helm_releases_def world_defs Let_def)
  have b: "\<not> list_ex (\<lambda>r. name r = ''dbt-fastbi-demo-98d66ba2'')
             (fst (get_helm_releases empty_world [] ''dbt-server''))"
    by (simp add: get_helm_releases_def world_defs Let_def)
  have c: "run failing_status_world
             ([] @ snd (get_helm_releases failing_status_world [] ''dbt-server''))
             [''helm'', ''status'', ''dbt-fastbi-demo-98d66ba2'', ''-n'', ''dbt-server'']
           = Completed 1 [] ''Error: release: not found''"
    by (simp add: get_helm_releases_def world_defs Let_def)
  have c': "\<exists>rc out' err'. rc \<noteq> 0 \<and>
          run failing_status_world
            ([] @ snd (get_helm_releases failing_status_world [] ''dbt-server''))
            [''helm'', ''status'', ''dbt-fastbi-demo-98d66ba2'', ''-n'', ''dbt-server'']
          = Completed rc out' err'"
    using c by auto
  from a b c'
    get_helm_status_result [of "''dbt-fastbi-demo-98d66ba2''" healthy_world "[]"
      "''dbt-server''" "''deployed''" "[]"]
    get_helm_status_result [of "''dbt-fastbi-demo-98d66ba2''" empty_world "[]" "''dbt-server''"]
    get_helm_status_result [of "''dbt-fastbi-demo-98d66ba2''" failing_status_world "[]"
      "''dbt-server''"]
  show ?thesis by blast
qed

text \<open>
  C6. A delete request whose identifier is not among the releases listed for the
  namespace \<open>dbt-server\<close> is answered with status 404, and the listing is the only call
  the route makes: no uninstall, no volume listing or deletion, no request to the
  orchestrator.
\<close>

theorem delete_absent_release:
  "\<not> list_ex (\<lambda>r. name r = deployment_id) (fst (get_helm_releases w h ''dbt-server'')) \<Longrightarrow>
     code (fst (delete_deployment cfg w h deployment_id)) = 404 \<and>
     status (fst (delete_deployment cfg w h deployment_id)) = ''error'' \<and>
     snd (delete_deployment cfg w h deployment_id)
       = [Subprocess [''helm'', ''list'', ''-n'', ''dbt-server'', ''--output'', ''json'']]"
  by (subst (1 2 3) delete_deployment_def, subst (1 2 3) get_helm_releases_pair)
     (simp add: Let_def)

theorem delete_absent_release_witness:
  "code (fst (delete_deployment example_config empty_world [] ''dbt-fastbi-demo-98d66ba2''))
     = 404 \<and>
   snd (delete_deployment example_config empty_world [] ''dbt-fastbi-demo-98d66ba2'')
     = [Subprocess [''helm'', ''list'', ''-n'', ''dbt-server'', ''--output'', ''json'']]"
proof -
  have "\<not> list_ex (\<lambda>r. name r = ''dbt-fastbi-demo-98d66ba2'')
             (fst (get_helm_releases empty_world [] ''dbt-server''))"
    by (simp add: get_helm_releases_def world_defs Let_def)
  from delete_absent_release [OF this, of example_config] show ?thesis by simp
qed

text \<open>
  C1. The release is applied and the orchestrator answers the existence check with
  status 500: the route sets the connection status to \<open>error\<close> and re-raises, so the
  response is the error response with status 500, and it carries no connection status.
\<close>

theorem deploy_connection_error_is_fatal:
  "status (fst (deploy_dbt_server example_config failing_airflow_world [] example_request))
     = ''error'' \<and>
   code (fst (deploy_dbt_server example_config failing_airflow_world [] example_request))
     = 500 \<and>
   connection_status_of
     (details (fst (deploy_dbt_server example_config failing_airflow_world [] example_request)))
     = None"
  by (simp add: deploy_dbt_server_def render_values_file_def helm_repo_setup_def run_checked_def
        deploy_connection_and_report_def sync_connection_def connection_failed_def
        get_connection_def make_request_def raise_for_status_def internal_error_def Let_def
        failing_airflow_world_def healthy_world_def)

text \<open>
  The field validators never change the loaded data: whatever the schema's context, the
  result of loading is the deserialised request.
\<close>

lemma load_dw_result: "snd (load_dw self raw) = deserialize_dw raw"
  by (simp add: load_dw_def Let_def split: prod.splits)

text \<open>
  C7. A request that sets \<open>data_warehouse_platform\<close> to \<open>bigquery\<close> and leaves
  \<open>datawarehouse_type\<close> out is loaded, by a schema constructed without a context, with
  \<open>datawarehouse_type\<close> empty: the two fields differ.
\<close>

theorem load_dw_no_backfill:
  "snd (load_dw \<lparr>schema_context = Some Map.empty\<rparr>
          [''data_warehouse_platform'' \<mapsto> ''bigquery'']) ''datawarehouse_type'' = Some [] \<and>
   snd (load_dw \<lparr>schema_context = Some Map.empty\<rparr>
          [''data_warehouse_platform'' \<mapsto> ''bigquery'']) ''data_warehouse_platform''
     = Some ''bigquery''"
  by (simp add: load_dw_def deserialize_dw_def Let_def split: prod.splits)

section \<open>Properties of the calls the routes make\<close>

lemma make_request_calls:
  "make_request w b h m e d = (r, t) \<Longrightarrow> t = [SessionRequest m (endpoint_url b e) d]"
  by (auto simp: make_request_def Let_def)

lemma connection_failed_hosts:
  "connection_failed cfg w h d aid hst e = (r, t) \<Longrightarrow>
     SessionRequest m u (Some cd) \<in> set t \<Longrightarrow> host cd = hst"
  by (cases e)
     (auto simp: connection_failed_def create_dbt_connection_def create_connection_def
           split: prod.splits option.splits if_splits dest!: make_request_calls)

lemma sync_connection_hosts:
  "sync_connection cfg w h d aid hst = (r, t) \<Longrightarrow>
     SessionRequest m u (Some cd) \<in> set t \<Longrightarrow> host cd = hst"
  by (auto simp: sync_connection_def update_connection_def get_connection_def
        split: prod.splits option.splits
        dest!: make_request_calls dest: connection_failed_hosts)

lemma get_helm_status_no_requests:
  "get_helm_status w h r ns = (x, t) \<Longrightarrow> SessionRequest m u y \<notin> set t"
  by (subst (asm) get_helm_status_def, subst (asm) get_helm_releases_pair)
     (auto simp: Let_def split: if_splits)

lemma report_hosts:
  "deploy_connection_and_report cfg w h d k = (r, t) \<Longrightarrow>
     SessionRequest m u (Some cd) \<in> set t \<Longrightarrow> host cd = connection_host d k"
  by (auto simp: deploy_connection_and_report_def Let_def
        split: prod.splits option.splits
        dest: sync_connection_hosts get_helm_status_no_requests)

lemma report_success_host:
  "deploy_connection_and_report cfg w h d k = (r, t) \<Longrightarrow> status r = ''success'' \<Longrightarrow>
     connection_host_of (details r) = Some (connection_host d k)"
  by (auto simp: deploy_connection_and_report_def Let_def internal_error_def
        split: prod.splits option.splits)

lemma render_values_file_no_requests:
  "render_values_file cfg w h d = (r, t) \<Longrightarrow> SessionRequest m u x \<notin> set t"
  by (auto simp: render_values_file_def Let_def)

lemma helm_repo_setup_no_requests:
  "helm_repo_setup cfg w h = (r, t) \<Longrightarrow> SessionRequest m u x \<notin> set t"
  by (auto simp: helm_repo_setup_def run_checked_def split: prod.splits option.splits)

lemma deploy_hosts:
  "deploy_dbt_server cfg w h d = (r, t) \<Longrightarrow> SessionRequest m u (Some cd) \<in> set t \<Longrightarrow>
     host cd = connection_host d (k8s_resource_name (project_name d) (git_branch d))"
  by (auto simp: deploy_dbt_server_def Let_def
        split: prod.splits sum.splits option.splits exn.splits proc_result.splits if_splits
        dest: report_hosts render_values_file_no_requests helm_repo_setup_no_requests)

lemma deploy_success_host:
  "deploy_dbt_server cfg w h d = (r, t) \<Longrightarrow> status r = ''success'' \<Longrightarrow>
     connection_host_of (details r)
       = Some (connection_host d (k8s_resource_name (project_name d) (git_branch d)))"
  by (auto simp: deploy_dbt_server_def Let_def internal_error_def
        split: prod.splits sum.splits option.splits exn.splits proc_result.splits if_splits
        dest: report_success_host)

text \<open>
  C8. Every request body the route sends to the orchestrator carries, as host, the HTTPS
  pattern \<open>https://dbt-server-<name>.<customer>.<domain>/invocations\<close> when the HTTPS flag
  is set and the cluster-local pattern
  \<open>http://dbt-server-<name>.<namespace>.svc.cluster.local/invocations\<close> otherwise, where
  \<open><name>\<close> is the derived resource name; a success response reports the same endpoint
  for the connection.
\<close>

theorem connection_endpoint:
  "(SessionRequest m u (Some cd) \<in> set (snd (deploy_dbt_server cfg w h d)) \<longrightarrow>
      host cd = (if https_enabled d
                 then ''https://dbt-server-'' @ k8s_resource_name (project_name d) (git_branch d)
                        @ ''.'' @ customer d @ ''.'' @ domain d @ ''/invocations''
                 else ''http://dbt-server-'' @ k8s_resource_name (project_name d) (git_branch d)
                        @ ''.'' @ namespace d @ ''.svc.cluster.local/invocations'')) \<and>
   (status (fst (deploy_dbt_server cfg w h d)) = ''success'' \<longrightarrow>
      connection_host_of (details (fst (deploy_dbt_server cfg w h d)))
        = Some (if https_enabled d
                then ''https://dbt-server-'' @ k8s_resource_name (project_name d) (git_branch d)
                       @ ''.'' @ customer d @ ''.'' @ domain d @ ''/invocations''
                else ''http://dbt-server-'' @ k8s_resource_name (project_name d) (git_branch d)
                       @ ''.'' @ namespace d @ ''.svc.cluster.local/invocations''))"
proof -
  obtain r t where rt: "deploy_dbt_server cfg w h d = (r, t)"
    by (cases "deploy_dbt_server cfg w h d")
  show ?thesis
    using deploy_hosts [OF rt, of m u cd] deploy_success_host [OF rt]
    by (simp add: rt connection_host_def)
qed


lemmas deploy_defs = deploy_dbt_server_def render_values_file_def helm_repo_setup_def
  run_checked_def deploy_connection_and_report_def sync_connection_def connection_failed_def
  get_connection_def update_connection_def make_request_def raise_for_status_def
  get_helm_status_def get_helm_releases_def connection_host_def endpoint_url_def py_rstrip_def
  internal_error_def Let_def

theorem connection_endpoint_witness:
  "SessionRequest ''PATCH''
     ''http://airflow:8080/api/v1/connections/dbt-fastbi-demo-98d66ba2''
     (Some \<lparr>conn_type = ''http'', connection_id = Some ''dbt-fastbi-demo-98d66ba2'',
            description = ''Update at: 2025-01-01 00:00:00 - Configuration to call http://dbt-server-dbt-fastbi-demo-98d66ba2.dbt-server.svc.cluster.local/invocations'',
            host = ''http://dbt-server-dbt-fastbi-demo-98d66ba2.dbt-server.svc.cluster.local/invocations'',
            login = ''agent'', password = ''secret-password'', port = None,
            schema = Some [], extra = Some []\<rparr>)
     \<in> set (snd (deploy_dbt_server example_config healthy_world [] example_request)) \<and>
   status (fst (deploy_dbt_server example_config healthy_world [] example_request)) = ''success'' \<and>
   connection_host_of (details (fst (deploy_dbt_server example_config healthy_world [] example_request)))
     = Some ''http://dbt-server-dbt-fastbi-demo-98d66ba2.dbt-server.svc.cluster.local/invocations''"
proof -
  have mem: "SessionRequest ''PATCH''
     ''http://airflow:8080/api/v1/connections/dbt-fastbi-demo-98d66ba2''
     (Some \<lparr>conn_type = ''http'', connection_id = Some ''dbt-fastbi-demo-98d66ba2'',
            description = ''Update at: 2025-01-01 00:00:00 - Configuration to call http://dbt-server-dbt-fastbi-demo-98d66ba2.dbt-server.svc.cluster.local/invocations'',
            host = ''http://dbt-server-dbt-fastbi-demo-98d66ba2.dbt-server.svc.cluster.local/invocations'',
            login = ''agent'', password = ''secret-password'', port = None,
            schema = Some [], extra = Some []\<rparr>)
     \<in> set (snd (deploy_dbt_server example_config healthy_world [] example_request))"
    by (simp add: deploy_defs world_defs k8s_fastbi_demo)
  have ok: "status (fst (deploy_dbt_server example_config healthy_world [] example_request)) = ''success''"
    by (simp add: deploy_defs world_defs k8s_fastbi_demo)
  have req: "https_enabled example_request = False \<and> namespace example_request = ''dbt-server''
     \<and> k8s_resource_name (project_name example_request) (git_branch example_request) = ''dbt-fastbi-demo-98d66ba2''"
    by (simp add: example_request_def k8s_fastbi_demo)
  from mem ok req
    connection_endpoint [of "''PATCH''"
      "''http://airflow:8080/api/v1/connections/dbt-fastbi-demo-98d66ba2''" _
      example_config healthy_world "[]" example_request]
  show ?thesis by simp
qed

lemma delete_pvcs_calls:
  "delete_pvcs w h ns p pvcs = (r, t) \<Longrightarrow> c \<in> set t \<Longrightarrow>
     \<exists>pvc. c = Subprocess [''kubectl'', ''delete'', ''pvc'', pvc, ''-n'', ns, ''--ignore-not-found=true'']"
proof (induction pvcs arbitrary: h r t)
  case Nil
  then show ?case by simp
next
  case (Cons pvc pvcs)
  then show ?case
    by (auto simp: Let_def split: if_splits proc_result.splits prod.splits sum.splits)
qed

lemma cleanup_pvcs_calls:
  "cleanup_pvcs w h ns k = (r, t) \<Longrightarrow> c \<in> set t \<Longrightarrow>
     c = Subprocess [''kubectl'', ''get'', ''pvc'', ''-n'', ns, ''-o'', ''jsonpath={.items[*].metadata.name}'']
     \<or> (\<exists>pvc. c = Subprocess [''kubectl'', ''delete'', ''pvc'', pvc, ''-n'', ns, ''--ignore-not-found=true''])"
  by (auto simp: cleanup_pvcs_def Let_def split: proc_result.splits if_splits prod.splits
        dest: delete_pvcs_calls)

lemma delete_connection_calls:
  "delete_connection w b h cid = (r, t) \<Longrightarrow>
     t = [RequestsDelete (endpoint_url b (''api/v1/connections/'' @ cid))]"
  by (auto simp: delete_connection_def Let_def)

lemma remove_connection_calls:
  "remove_connection cfg w h k = (r, t) \<Longrightarrow> c \<in> set t \<Longrightarrow>
     c = SessionRequest ''GET'' (endpoint_url (AIRFLOW_URL cfg) (''api/v1/connections/'' @ k)) None
     \<or> c = RequestsDelete (endpoint_url (AIRFLOW_URL cfg) (''api/v1/connections/'' @ k))"
  by (auto simp: remove_connection_def get_connection_def split: prod.splits option.splits
        dest!: make_request_calls delete_connection_calls)

lemma delete_dependents_calls:
  assumes "delete_dependents_and_report cfg w h ns k = (r, t)" and "c \<in> set t"
  shows "c = Subprocess [''kubectl'', ''get'', ''pvc'', ''-n'', ns, ''-o'', ''jsonpath={.items[*].metadata.name}'']
     \<or> (\<exists>pvc. c = Subprocess [''kubectl'', ''delete'', ''pvc'', pvc, ''-n'', ns, ''--ignore-not-found=true''])
     \<or> c = SessionRequest ''GET'' (endpoint_url (AIRFLOW_URL cfg) (''api/v1/connections/'' @ k)) None
     \<or> c = RequestsDelete (endpoint_url (AIRFLOW_URL cfg) (''api/v1/connections/'' @ k))"
proof -
  obtain a t1 where cl: "cleanup_pvcs w h ns k = (a, t1)"
    by (cases "cleanup_pvcs w h ns k")
  show ?thesis
  proof (cases a)
    case (Inl e)
    with cl assms(1) have "t = t1"
      by (simp add: delete_dependents_and_report_def)
    with assms(2) cleanup_pvcs_calls [OF cl] show ?thesis by blast
  next
    case (Inr deleted)
    obtain rr t2 where rc: "remove_connection cfg w (h @ t1) k = (rr, t2)"
      by (cases "remove_connection cfg w (h @ t1) k")
    from cl Inr rc assms(1) have "t = t1 @ t2"
      by (auto simp: delete_dependents_and_report_def split: prod.splits)
    with assms(2) have "c \<in> set t1 \<or> c \<in> set t2" by simp
    with cleanup_pvcs_calls [OF cl] remove_connection_calls [OF rc] show ?thesis by blast
  qed
qed

lemma delete_dependents_namespace:
  "delete_dependents_and_report cfg w h ns k = (r, t) \<Longrightarrow>
     details_namespace (details r) = Some ns \<or> details_namespace (details r) = None"
  by (auto simp: delete_dependents_and_report_def internal_error_def split: prod.splits sum.splits)

lemma delete_deployment_calls:
  assumes "delete_deployment cfg w h k = (r, t)" and "c \<in> set t"
  shows "c = Subprocess [''helm'', ''list'', ''-n'', ''dbt-server'', ''--output'', ''json'']
     \<or> c = Subprocess [''helm'', ''uninstall'', k, ''-n'', ''dbt-server'']
     \<or> c = Subprocess [''kubectl'', ''get'', ''pvc'', ''-n'', ''dbt-server'', ''-o'', ''jsonpath={.items[*].metadata.name}'']
     \<or> (\<exists>pvc. c = Subprocess [''kubectl'', ''delete'', ''pvc'', pvc, ''-n'', ''dbt-server'', ''--ignore-not-found=true''])
     \<or> c = SessionRequest ''GET'' (endpoint_url (AIRFLOW_URL cfg) (''api/v1/connections/'' @ k)) None
     \<or> c = RequestsDelete (endpoint_url (AIRFLOW_URL cfg) (''api/v1/connections/'' @ k))"
proof -
  let ?list = "Subprocess [''helm'', ''list'', ''-n'', ''dbt-server'', ''--output'', ''json'']"
  let ?un = "Subprocess [''helm'', ''uninstall'', k, ''-n'', ''dbt-server'']"
  obtain r' t' where dd:
    "delete_dependents_and_report cfg w (h @ [?list, ?un]) ''dbt-server'' k = (r', t')"
    by (cases "delete_dependents_and_report cfg w (h @ [?list, ?un]) ''dbt-server'' k")
  from assms(1) have "set t \<subseteq> {?list, ?un} \<union> set t'"
    by (subst (asm) delete_deployment_def, subst (asm) get_helm_releases_pair)
       (auto simp: Let_def dd split: if_splits proc_result.splits)
  with assms(2) have "c = ?list \<or> c = ?un \<or> c \<in> set t'" by blast
  with delete_dependents_calls [OF dd] show ?thesis by blast
qed


lemma delete_deployment_namespace:
  assumes "delete_deployment cfg w h k = (r, t)" and "status r = ''success''"
  shows "details_namespace (details r) = Some ''dbt-server''"
proof -
  let ?list = "Subprocess [''helm'', ''list'', ''-n'', ''dbt-server'', ''--output'', ''json'']"
  let ?un = "Subprocess [''helm'', ''uninstall'', k, ''-n'', ''dbt-server'']"
  obtain r' t' where dd:
    "delete_dependents_and_report cfg w (h @ [?list, ?un]) ''dbt-server'' k = (r', t')"
    by (cases "delete_dependents_and_report cfg w (h @ [?list, ?un]) ''dbt-server'' k")
  from assms have "r = r'"
    by (subst (asm) delete_deployment_def, subst (asm) get_helm_releases_pair)
       (auto simp: Let_def dd internal_error_def split: if_splits proc_result.splits)
  with assms(2) dd show ?thesis
    by (auto simp: delete_dependents_and_report_def internal_error_def
          split: prod.splits sum.splits)
qed

text \<open>
  C10. Every command the delete route runs names the namespace \<open>dbt-server\<close>: the
  release listing, the uninstall, the volume listing and each volume deletion; the
  requests to the orchestrator name the deployment identifier and nothing else. A success
  response reports the namespace \<open>dbt-server\<close>. The request has no namespace of its own,
  so an identifier listed in another namespace only is answered with status 404.
\<close>

theorem delete_uses_fixed_namespace:
  "(\<forall>c \<in> set (snd (delete_deployment cfg w h k)).
      c = Subprocess [''helm'', ''list'', ''-n'', ''dbt-server'', ''--output'', ''json'']
      \<or> c = Subprocess [''helm'', ''uninstall'', k, ''-n'', ''dbt-server'']
      \<or> c = Subprocess [''kubectl'', ''get'', ''pvc'', ''-n'', ''dbt-server'', ''-o'',
                         ''jsonpath={.items[*].metadata.name}'']
      \<or> (\<exists>pvc. c = Subprocess [''kubectl'', ''delete'', ''pvc'', pvc, ''-n'', ''dbt-server'',
                                ''--ignore-not-found=true''])
      \<or> c = SessionRequest ''GET''
               (endpoint_url (AIRFLOW_URL cfg) (''api/v1/connections/'' @ k)) None
      \<or> c = RequestsDelete (endpoint_url (AIRFLOW_URL cfg) (''api/v1/connections/'' @ k))) \<and>
   (status (fst (delete_deployment cfg w h k)) = ''success'' \<longrightarrow>
      details_namespace (details (fst (delete_deployment cfg w h k))) = Some ''dbt-server'') \<and>
   (ns \<noteq> ''dbt-server''
      \<and> list_ex (\<lambda>r. name r = k) (fst (get_helm_releases w h ns))
      \<and> \<not> list_ex (\<lambda>r. name r = k) (fst (get_helm_releases w h ''dbt-server''))
    \<longrightarrow> code (fst (delete_deployment cfg w h k)) = 404)"
proof -
  obtain r t where rt: "delete_deployment cfg w h k = (r, t)"
    by (cases "delete_deployment cfg w h k")
  have nf: "\<not> list_ex (\<lambda>r. name r = k) (fst (get_helm_releases w h ''dbt-server'')) \<Longrightarrow>
              code (fst (delete_deployment cfg w h k)) = 404"
    by (subst delete_deployment_def, subst get_helm_releases_pair) (simp add: Let_def)
  show ?thesis
    using delete_deployment_calls [OF rt] delete_deployment_namespace [OF rt] nf
    by (auto simp: rt)
qed

lemmas delete_defs = delete_deployment_def get_helm_releases_def delete_dependents_and_report_def
  cleanup_pvcs_def py_strip_split_def is_space_def startswith_def remove_connection_def
  connection_delete_failed_def get_connection_def delete_connection_def make_request_def
  raise_for_status_def endpoint_url_def py_rstrip_def internal_error_def Let_def

theorem delete_uses_fixed_namespace_witness:
  "code (fst (delete_deployment example_config other_namespace_world []
                ''dbt-fastbi-demo-98d66ba2'')) = 404 \<and>
   details_namespace (details (fst (delete_deployment example_config healthy_world []
                ''dbt-fastbi-demo-98d66ba2''))) = Some ''dbt-server'' \<and>
   Subprocess [''helm'', ''uninstall'', ''dbt-fastbi-demo-98d66ba2'', ''-n'', ''dbt-server'']
     \<in> set (snd (delete_deployment example_config healthy_world [] ''dbt-fastbi-demo-98d66ba2''))"
proof -
  have other: "''analytics'' \<noteq> ''dbt-server''
      \<and> list_ex (\<lambda>r. name r = ''dbt-fastbi-demo-98d66ba2'')
           (fst (get_helm_releases other_namespace_world [] ''analytics''))
      \<and> \<not> list_ex (\<lambda>r. name r = ''dbt-fastbi-demo-98d66ba2'')
           (fst (get_helm_releases other_namespace_world [] ''dbt-server''))"
    by (simp add: get_helm_releases_def world_defs Let_def)
  have ok: "status (fst (delete_deployment example_config healthy_world []
                ''dbt-fastbi-demo-98d66ba2'')) = ''success''"
    by (simp add: delete_defs world_defs)
  have mem: "Subprocess [''helm'', ''uninstall'', ''dbt-fastbi-demo-98d66ba2'', ''-n'', ''dbt-server'']
     \<in> set (snd (delete_deployment example_config healthy_world [] ''dbt-fastbi-demo-98d66ba2''))"
    by (simp add: delete_defs world_defs)
  from other ok mem
    delete_uses_fixed_namespace [of example_config other_namespace_world "[]"
      "''dbt-fastbi-demo-98d66ba2''" "''analytics''"]
    delete_uses_fixed_namespace [of example_config healthy_world "[]"
      "''dbt-fastbi-demo-98d66ba2''" "''analytics''"]
  show ?thesis by blast
qed

end
